theory Spec2Isabelle
  imports Main
begin

section \<open>The shipping-information form of the cart page\<close>

text \<open>
  The React component \<^verbatim>\<open>ShippingInfo\<close> of
  \<^verbatim>\<open>cart/_components/shipping-info.tsx\<close> keeps a record of form values in a
  reducer, fetches the states of the selected country in an effect, and hands the form
  to a server action. The component is modelled as a state machine: its state is what
  React keeps for it between renders (the reducer's value and the dependencies of the
  effect) together with the requests it has issued and that have not settled; an event is
  a user action, a settled request or a render with a new translation function; a step
  returns the new state and the calls the component made, in order.

  What the model takes from React: a handler runs to its end, the updates it dispatched
  are reduced in their order, and the component renders before the next event; after a
  render the effect runs when one of its dependencies differs from the previous
  render's; the first render runs the effect. Requests settle in any order, each once.
  The properties \<^verbatim>\<open>checkout\<close> and \<^verbatim>\<open>shippingCountries\<close> are an argument of every
  step.

  JavaScript numbers are a type parameter \<open>'n\<close>. The two conversions the component
  uses, \<^verbatim>\<open>Number(string)\<close> and the template literal's number-to-string, are
  parameters of the functions that use them, so that every theorem holds for the
  conversions of the language. The object \<^verbatim>\<open>selectedShippingOption\<close> is only
  tested for presence; its type is the parameter \<open>'o\<close>. The identity of the translation
  function \<^verbatim>\<open>t\<close> is a value of type \<open>'t\<close>, and \<^verbatim>\<open>FormData\<close> is \<open>'fd\<close>.
\<close>

subsection \<open>Form values and the reducer\<close>

record 'n StateEntry =
  entry_id :: 'n
  entry_state :: string
  state_abbreviation :: string
  country_id :: 'n

type_synonym 'n StatesList = "'n StateEntry list"

text \<open>\<^verbatim>\<open>states: StatesList | null\<close>: \<open>None\<close> is \<^verbatim>\<open>null\<close>.\<close>

record 'n FormValues =
  country :: string
  states :: "'n StatesList option"
  state :: string
  city :: string
  postcode :: string

text \<open>
  \<^verbatim>\<open>Partial<FormValues>\<close>: every key may be absent (\<open>None\<close>). The key
  \<^verbatim>\<open>states\<close>, when present, holds a list or \<^verbatim>\<open>null\<close>.
\<close>

record 'n PartialFormValues =
  new_country :: "string option"
  new_states :: "'n StatesList option option"
  new_state :: "string option"
  new_city :: "string option"
  new_postcode :: "string option"

definition noValues :: "'n PartialFormValues" where
  "noValues = \<lparr>new_country = None, new_states = None, new_state = None,
     new_city = None, new_postcode = None\<rparr>"

text \<open>The reducer \<^verbatim>\<open>(currentValues, newValues) => ({...currentValues, ...newValues})\<close>.\<close>

definition reducer :: "'n FormValues \<Rightarrow> 'n PartialFormValues \<Rightarrow> 'n FormValues" where
  "reducer currentValues newValues =
     \<lparr>country = (case new_country newValues of None \<Rightarrow> country currentValues | Some v \<Rightarrow> v),
      states = (case new_states newValues of None \<Rightarrow> states currentValues | Some v \<Rightarrow> v),
      state = (case new_state newValues of None \<Rightarrow> state currentValues | Some v \<Rightarrow> v),
      city = (case new_city newValues of None \<Rightarrow> city currentValues | Some v \<Rightarrow> v),
      postcode = (case new_postcode newValues of None \<Rightarrow> postcode currentValues | Some v \<Rightarrow> v)\<rparr>"

text \<open>The calls of \<^verbatim>\<open>setFormValues\<close> made by one handler are reduced in order.\<close>

definition setFormValues :: "'n FormValues \<Rightarrow> 'n PartialFormValues list \<Rightarrow> 'n FormValues" where
  "setFormValues currentValues updates = foldl reducer currentValues updates"

subsection \<open>Properties of the component\<close>

record Address =
  address_countryCode :: string
  stateOrProvince :: "string option"
  address_city :: "string option"
  postalCode :: "string option"

record 'o ShippingConsignment =
  consignment_entityId :: string
  selectedShippingOption :: "'o option"
  address :: Address

record 'n PhysicalItem =
  item_entityId :: string
  item_quantity :: 'n

record 'n LineItems =
  physicalItems :: "'n PhysicalItem list"

record 'n Cart =
  cart_lineItems :: "'n LineItems"

record ('n, 'o) Checkout =
  checkout_entityId :: string
  cart :: "'n Cart option"
  shippingConsignments :: "'o ShippingConsignment list option"

record 'n ShippingCountry =
  sc_id :: 'n
  countryCode :: string
  country_name :: string

record ('n, 'o) Props =
  checkout :: "('n, 'o) Checkout"
  shippingCountries :: "'n ShippingCountry list"
  isVisible :: bool

subsection \<open>Initial form values\<close>

text \<open>
  \<^verbatim>\<open>checkout.shippingConsignments?.find((c) => c.selectedShippingOption) ||
  checkout.shippingConsignments?.[0]\<close>: both sides are \<^verbatim>\<open>undefined\<close> when the list
  is absent, and the index is \<^verbatim>\<open>undefined\<close> on the empty list.
\<close>

definition shippingConsignment :: "('n, 'o) Checkout \<Rightarrow> 'o ShippingConsignment option" where
  "shippingConsignment ch =
     (case shippingConsignments ch of
        None \<Rightarrow> None
      | Some cs \<Rightarrow>
          (case find (\<lambda>consignment. selectedShippingOption consignment \<noteq> None) cs of
             Some c \<Rightarrow> Some c
           | None \<Rightarrow> (case cs of [] \<Rightarrow> None | c # _ \<Rightarrow> Some c)))"

text \<open>
  \<^verbatim>\<open>shippingCountries.find((country) => country.countryCode ===
  shippingConsignment?.address.countryCode)\<close>: the right-hand side is
  \<^verbatim>\<open>undefined\<close> without a consignment, which no country code equals.
\<close>

definition selectedShippingCountry :: "('n, 'o) Props \<Rightarrow> 'n ShippingCountry option" where
  "selectedShippingCountry props =
     find (\<lambda>c. Some (countryCode c) =
                 map_option (\<lambda>consignment. address_countryCode (address consignment))
                   (shippingConsignment (checkout props)))
       (shippingCountries props)"

text \<open>\<^verbatim>\<open>x || ''\<close> for a string that may be absent.\<close>

definition orEmpty :: "string option \<Rightarrow> string" where
  "orEmpty x = (case x of None \<Rightarrow> [] | Some s \<Rightarrow> s)"

text \<open>The value of a country item: \<^verbatim>\<open>`${countryCode}-${id}`\<close>.\<close>

definition countryValue :: "('n \<Rightarrow> string) \<Rightarrow> 'n ShippingCountry \<Rightarrow> string" where
  "countryValue toString c = countryCode c @ ''-'' @ toString (sc_id c)"

definition initialFormValues :: "('n \<Rightarrow> string) \<Rightarrow> ('n, 'o) Props \<Rightarrow> 'n FormValues" where
  "initialFormValues toString props =
     \<lparr>country = (case selectedShippingCountry props of
                    Some c \<Rightarrow> countryValue toString c
                  | None \<Rightarrow> []),
      states = Some [],
      state = orEmpty (Option.bind (shippingConsignment (checkout props))
                 (\<lambda>consignment. stateOrProvince (address consignment))),
      city = orEmpty (Option.bind (shippingConsignment (checkout props))
                 (\<lambda>consignment. address_city (address consignment))),
      postcode = orEmpty (Option.bind (shippingConsignment (checkout props))
                 (\<lambda>consignment. postalCode (address consignment)))\<rparr>"

subsection \<open>The effect that fetches the states\<close>

text \<open>
  \<^verbatim>\<open>String.prototype.split\<close> with a one-character separator: the pieces between
  the separators, one piece for a string without a separator (the empty string too).
\<close>

fun js_split :: "char \<Rightarrow> string \<Rightarrow> string list" where
  "js_split sep [] = [[]]"
| "js_split sep (c # cs) =
     (if c = sep then [] # js_split sep cs
      else (case js_split sep cs of
              [] \<Rightarrow> [[c]]
            | w # ws \<Rightarrow> (c # w) # ws))"

text \<open>An array read \<^verbatim>\<open>xs[i]\<close>: \<^verbatim>\<open>undefined\<close> (\<open>None\<close>) out of range.\<close>

definition js_index :: "'a list \<Rightarrow> nat \<Rightarrow> 'a option" where
  "js_index xs i = (if i < length xs then Some (xs ! i) else None)"

text \<open>\<^verbatim>\<open>value.split('-')[1]\<close>.\<close>

definition countryId :: "string \<Rightarrow> string option" where
  "countryId v = js_index (js_split CHR ''-'' v) 1"

text \<open>A string or \<^verbatim>\<open>undefined\<close> in a condition: true for a non-empty string.\<close>

definition truthy :: "string option \<Rightarrow> bool" where
  "truthy x = (case x of None \<Rightarrow> False | Some s \<Rightarrow> s \<noteq> [])"

text \<open>
  The body of the effect: the arguments of the calls of \<^verbatim>\<open>getShippingStates\<close>
  it makes (none or one).
\<close>

definition useEffect_body :: "(string \<Rightarrow> 'n) \<Rightarrow> 'n FormValues \<Rightarrow> 'n list" where
  "useEffect_body Number fv =
     (if country fv \<noteq> [] then
        (case countryId (country fv) of
           Some cid \<Rightarrow> (if cid \<noteq> [] then [Number cid] else [])
         | None \<Rightarrow> [])
      else [])"

subsection \<open>The component as a state machine\<close>

text \<open>
  \<open>translator\<close> is the \<^verbatim>\<open>t\<close> of the last render. \<open>statesRequests\<close> holds the
  arguments of the calls of \<^verbatim>\<open>getShippingStates\<close> that have not settled yet,
  \<open>submitRequests\<close> the \<^verbatim>\<open>t\<close> that each unsettled \<^verbatim>\<open>onSubmit\<close> closed over.
\<close>

record ('n, 't) Component =
  formValues :: "'n FormValues"
  translator :: 't
  statesRequests :: "'n list"
  submitRequests :: "'t list"

record 'n LineItemInput =
  lineItemEntityId :: string
  quantity :: 'n

record 'n ShippingInfoArgs =
  checkoutId :: string
  lineItems :: "'n LineItemInput list"
  shippingId :: string

text \<open>What the component calls: the two server actions, the callback of its parent, the toast.\<close>

datatype ('n, 't, 'fd) Call =
    GetShippingStates 'n
  | SubmitShippingInfo 'fd "'n ShippingInfoArgs"
  | HideShippingOptions
  | ToastError 't string

text \<open>
  The outcome of \<^verbatim>\<open>await getShippingStates(..)\<close>: an object with a status and, maybe,
  the data, or a rejected promise. Likewise for \<^verbatim>\<open>submitShippingInfo\<close>.
\<close>

datatype 'n StatesResult = StatesReturned string "'n StatesList option" | StatesRejected

datatype SubmitResult = SubmitReturned string | SubmitRejected

datatype ('n, 't, 'fd) Event =
    CountryChange string
  | StateChange string
  | CityChange string
  | PostcodeChange string
  | Submit 'fd
  | StatesResponse nat "'n StatesResult"
  | SubmitResponse nat SubmitResult
  | Rerender 't

text \<open>
  A render after the given updates, with the translation function \<open>t'\<close>: the effect runs
  when one of its dependencies \<^verbatim>\<open>[formValues.country, t]\<close> differs from the last
  render's, and its calls join the unsettled ones.
\<close>

definition render ::
  "(string \<Rightarrow> 'n) \<Rightarrow> ('n, 't) Component \<Rightarrow> 'n PartialFormValues list \<Rightarrow> 't \<Rightarrow>
   ('n, 't) Component \<times> 'n list" where
  "render Number c updates t' =
     (let fv = setFormValues (formValues c) updates;
          fetches = (if country fv \<noteq> country (formValues c) \<or> t' \<noteq> translator c
                     then useEffect_body Number fv else [])
      in (c\<lparr>formValues := fv, translator := t',
            statesRequests := statesRequests c @ fetches\<rparr>, fetches))"

text \<open>
  The first render: the reducer starts from the initial values and the effect runs.
\<close>

definition mount ::
  "(string \<Rightarrow> 'n) \<Rightarrow> ('n \<Rightarrow> string) \<Rightarrow> ('n, 'o) Props \<Rightarrow> 't \<Rightarrow>
   ('n, 't) Component \<times> ('n, 't, 'fd) Call list" where
  "mount Number toString props t0 =
     (let fv = initialFormValues toString props;
          fetches = useEffect_body Number fv
      in (\<lparr>formValues = fv, translator = t0, statesRequests = fetches,
           submitRequests = []\<rparr>,
          map GetShippingStates fetches))"

text \<open>
  \<^verbatim>\<open>resetFormFieldsOnCountryChange\<close>, reading the form values of the render whose
  handler calls it: the updates it dispatches and whether it calls
  \<^verbatim>\<open>hideShippingOptions\<close>.
\<close>

definition resetFormFieldsOnCountryChange ::
  "'n FormValues \<Rightarrow> 'n PartialFormValues list \<times> ('n, 't, 'fd) Call list" where
  "resetFormFieldsOnCountryChange fv =
     (if country fv \<noteq> [] then
        ([noValues\<lparr>new_states := Some (Some []), new_state := Some [],
            new_city := Some [], new_postcode := Some []\<rparr>],
         [HideShippingOptions])
      else ([], []))"

text \<open>The handler \<^verbatim>\<open>onValueChange\<close> of the country select.\<close>

definition onCountryChange ::
  "'n FormValues \<Rightarrow> string \<Rightarrow> 'n PartialFormValues list \<times> ('n, 't, 'fd) Call list" where
  "onCountryChange fv v =
     (let first = (if truthy (countryId v) then noValues\<lparr>new_country := Some v\<rparr>
                   else noValues\<lparr>new_country := Some []\<rparr>);
          (updates, calls) = resetFormFieldsOnCountryChange fv
      in (first # updates, calls))"

text \<open>The second argument of \<^verbatim>\<open>submitShippingInfo\<close> in \<^verbatim>\<open>onSubmit\<close>.\<close>

definition submitArgs :: "('n, 'o) Props \<Rightarrow> 'n ShippingInfoArgs" where
  "submitArgs props =
     \<lparr>checkoutId = checkout_entityId (checkout props),
      lineItems = (case cart (checkout props) of
                     None \<Rightarrow> []
                   | Some c \<Rightarrow>
                       map (\<lambda>item. \<lparr>lineItemEntityId = item_entityId item,
                                     quantity = item_quantity item\<rparr>)
                         (physicalItems (cart_lineItems c))),
      shippingId = (case shippingConsignment (checkout props) of
                      None \<Rightarrow> []
                    | Some consignment \<Rightarrow> consignment_entityId consignment)\<rparr>"

text \<open>
  The part of \<^verbatim>\<open>fetchStates\<close> after the \<^verbatim>\<open>await\<close>: the updates it dispatches.
  A rejected promise ends the function without an update.
\<close>

definition fetchStates_continue :: "'n StatesResult \<Rightarrow> 'n PartialFormValues list" where
  "fetchStates_continue r =
     (case r of
        StatesReturned status data \<Rightarrow>
          (if status = ''success'' \<and> data \<noteq> None
           then [noValues\<lparr>new_states := Some data\<rparr>]
           else [noValues\<lparr>new_states := Some None\<rparr>])
      | StatesRejected \<Rightarrow> [])"

text \<open>The part of \<^verbatim>\<open>onSubmit\<close> after the \<^verbatim>\<open>await\<close>, with the \<^verbatim>\<open>t\<close> it closed over.\<close>

definition onSubmit_continue :: "'t \<Rightarrow> SubmitResult \<Rightarrow> ('n, 't, 'fd) Call list" where
  "onSubmit_continue t r =
     (case r of
        SubmitReturned status \<Rightarrow>
          (if status = ''error'' then [ToastError t ''errorMessage''] else [])
      | SubmitRejected \<Rightarrow> [])"

definition remove_nth :: "nat \<Rightarrow> 'a list \<Rightarrow> 'a list" where
  "remove_nth k xs = take k xs @ drop (Suc k) xs"

text \<open>
  One step of the component. A response is an event only for a request that is unsettled
  (\<open>None\<close> otherwise). The calls are listed in the order they are made: those of the
  handler, then those of the effect.
\<close>

fun step ::
  "(string \<Rightarrow> 'n) \<Rightarrow> ('n, 'o) Props \<Rightarrow> ('n, 't) Component \<Rightarrow> ('n, 't, 'fd) Event \<Rightarrow>
   (('n, 't) Component \<times> ('n, 't, 'fd) Call list) option" where
  "step Number props c (CountryChange v) =
     (let (updates, calls) = onCountryChange (formValues c) v;
          (c', fetches) = render Number c updates (translator c)
      in Some (c', calls @ map GetShippingStates fetches))"
| "step Number props c (StateChange v) =
     (let (c', fetches) = render Number c [noValues\<lparr>new_state := Some v\<rparr>] (translator c)
      in Some (c', map GetShippingStates fetches))"
| "step Number props c (CityChange v) =
     (let (c', fetches) = render Number c [noValues\<lparr>new_city := Some v\<rparr>] (translator c)
      in Some (c', map GetShippingStates fetches))"
| "step Number props c (PostcodeChange v) =
     (let (c', fetches) = render Number c [noValues\<lparr>new_postcode := Some v\<rparr>] (translator c)
      in Some (c', map GetShippingStates fetches))"
| "step Number props c (Submit formData) =
     Some (c\<lparr>submitRequests := submitRequests c @ [translator c]\<rparr>,
           [SubmitShippingInfo formData (submitArgs props)])"
| "step Number props c (StatesResponse k r) =
     (if k < length (statesRequests c) then
        (let (c', fetches) =
               render Number (c\<lparr>statesRequests := remove_nth k (statesRequests c)\<rparr>)
                 (fetchStates_continue r) (translator c)
         in Some (c', map GetShippingStates fetches))
      else None)"
| "step Number props c (SubmitResponse k r) =
     (if k < length (submitRequests c) then
        Some (c\<lparr>submitRequests := remove_nth k (submitRequests c)\<rparr>,
              onSubmit_continue (submitRequests c ! k) r)
      else None)"
| "step Number props c (Rerender t') =
     (let (c', fetches) = render Number c [] t'
      in Some (c', map GetShippingStates fetches))"

text \<open>A run of events from a state: the final state and all calls, or \<open>None\<close> when an
  event of the run was not possible.\<close>

fun run ::
  "(string \<Rightarrow> 'n) \<Rightarrow> ('n, 'o) Props \<Rightarrow> ('n, 't) Component \<Rightarrow> ('n, 't, 'fd) Event list \<Rightarrow>
   (('n, 't) Component \<times> ('n, 't, 'fd) Call list) option" where
  "run Number props c [] = Some (c, [])"
| "run Number props c (e # es) =
     (case step Number props c e of
        None \<Rightarrow> None
      | Some (c', calls) \<Rightarrow>
          (case run Number props c' es of
             None \<Rightarrow> None
           | Some (c'', calls') \<Rightarrow> Some (c'', calls @ calls')))"

subsection \<open>What is rendered for the state field\<close>

text \<open>
  The state field is a select (with its \<^verbatim>\<open>disabled\<close> flag, its value and the value of
  each item) when \<^verbatim>\<open>formValues.states !== null\<close>, and a text input (with its value)
  otherwise.
\<close>

datatype StateField =
    StateSelect bool string "string list"
  | StateInput string

definition renderStateField :: "'n FormValues \<Rightarrow> StateField" where
  "renderStateField fv =
     (case states fv of
        Some sts \<Rightarrow> StateSelect (length sts = 0) (state fv) (map entry_state sts)
      | None \<Rightarrow> StateInput (state fv))"

fun isInput :: "StateField \<Rightarrow> bool" where
  "isInput (StateInput _) = True"
| "isInput (StateSelect _ _ _) = False"

fun isFetch :: "('n, 't, 'fd) Call \<Rightarrow> bool" where
  "isFetch (GetShippingStates _) = True"
| "isFetch _ = False"

fun isToast :: "('n, 't, 'fd) Call \<Rightarrow> bool" where
  "isToast (ToastError _ _) = True"
| "isToast _ = False"

fun isStatesResponse :: "('n, 't, 'fd) Event \<Rightarrow> bool" where
  "isStatesResponse (StatesResponse _ _) = True"
| "isStatesResponse _ = False"

subsection \<open>Example data\<close>

text \<open>
  The examples take natural numbers for the numbers, read a string of decimal digits as
  \<^verbatim>\<open>Number\<close> does and print a natural number as a template literal does.
\<close>

definition digitValue :: "char \<Rightarrow> nat" where
  "digitValue ch = of_char ch - 48"

definition decimal :: "string \<Rightarrow> nat" where
  "decimal s = foldl (\<lambda>acc ch. 10 * acc + digitValue ch) 0 s"

definition digitChar :: "nat \<Rightarrow> char" where
  "digitChar d = char_of (48 + d)"

function showNat :: "nat \<Rightarrow> string" where
  "showNat n = (if n < 10 then [digitChar n] else showNat (n div 10) @ [digitChar (n mod 10)])"
  by pat_completeness auto
termination
  by (relation "measure (\<lambda>n. n)") auto

definition exampleCountries :: "nat ShippingCountry list" where
  "exampleCountries =
     [\<lparr>sc_id = 226, countryCode = ''US'', country_name = ''United States''\<rparr>,
      \<lparr>sc_id = 38, countryCode = ''CA'', country_name = ''Canada''\<rparr>]"

definition exampleConsignments :: "unit ShippingConsignment list" where
  "exampleConsignments =
     [\<lparr>consignment_entityId = ''c1'', selectedShippingOption = None,
       address = \<lparr>address_countryCode = ''US'', stateOrProvince = Some ''Texas'',
                  address_city = Some ''Austin'', postalCode = Some ''78701''\<rparr>\<rparr>,
      \<lparr>consignment_entityId = ''c2'', selectedShippingOption = Some (),
       address = \<lparr>address_countryCode = ''CA'', stateOrProvince = Some ''Ontario'',
                  address_city = None, postalCode = Some ''M5V''\<rparr>\<rparr>]"

definition exampleCart :: "nat Cart" where
  "exampleCart =
     \<lparr>cart_lineItems = \<lparr>physicalItems =
        [\<lparr>item_entityId = ''i1'', item_quantity = 2\<rparr>,
         \<lparr>item_entityId = ''i2'', item_quantity = 1\<rparr>]\<rparr>\<rparr>"

definition exampleProps :: "(nat, unit) Props" where
  "exampleProps =
     \<lparr>checkout = \<lparr>checkout_entityId = ''chk'', cart = Some exampleCart,
                   shippingConsignments = Some exampleConsignments\<rparr>,
      shippingCountries = exampleCountries, isVisible = True\<rparr>"

text \<open>A checkout without a cart and without consignments.\<close>

definition emptyProps :: "(nat, unit) Props" where
  "emptyProps =
     \<lparr>checkout = \<lparr>checkout_entityId = ''chk'', cart = None, shippingConsignments = None\<rparr>,
      shippingCountries = exampleCountries, isVisible = True\<rparr>"

definition exampleStates :: "nat StatesList" where
  "exampleStates =
     [\<lparr>entry_id = 57, entry_state = ''Texas'', state_abbreviation = ''TX'', country_id = 226\<rparr>]"

text \<open>The component after its first render, for each of the two checkouts.\<close>

definition exampleMounted :: "(nat, nat) Component" where
  "exampleMounted =
     fst (mount decimal showNat exampleProps 0 :: (nat, nat) Component \<times> (nat, nat, unit) Call list)"

definition emptyMounted :: "(nat, nat) Component" where
  "emptyMounted =
     fst (mount decimal showNat emptyProps 0 :: (nat, nat) Component \<times> (nat, nat, unit) Call list)"

section \<open>Properties\<close>

declare step.simps [simp del]

subsection \<open>The reducer and a render\<close>

lemma reducer_fields:
  "country (reducer cur p) = (case new_country p of None \<Rightarrow> country cur | Some v \<Rightarrow> v)"
  "states (reducer cur p) = (case new_states p of None \<Rightarrow> states cur | Some v \<Rightarrow> v)"
  "state (reducer cur p) = (case new_state p of None \<Rightarrow> state cur | Some v \<Rightarrow> v)"
  "city (reducer cur p) = (case new_city p of None \<Rightarrow> city cur | Some v \<Rightarrow> v)"
  "postcode (reducer cur p) = (case new_postcode p of None \<Rightarrow> postcode cur | Some v \<Rightarrow> v)"
  by (simp_all add: reducer_def)

lemma noValues_fields [simp]:
  "new_country noValues = None" "new_states noValues = None" "new_state noValues = None"
  "new_city noValues = None" "new_postcode noValues = None"
  by (simp_all add: noValues_def)

lemma setFormValues_simps [simp]:
  "setFormValues fv [] = fv"
  "setFormValues fv (u # us) = setFormValues (reducer fv u) us"
  by (simp_all add: setFormValues_def)

lemma render_same_country:
  "country (setFormValues (formValues c) ups) = country (formValues c) \<Longrightarrow>
   t' = translator c \<Longrightarrow>
   render Number c ups t' =
     (c\<lparr>formValues := setFormValues (formValues c) ups\<rparr>, [])"
  by (simp add: render_def Let_def)

lemma isInput_iff: "isInput (renderStateField fv) \<longleftrightarrow> states fv = None"
  by (simp add: renderStateField_def split: option.splits)

subsection \<open>The steps, event by event\<close>

lemma fetchStates_continue_country:
  "country (setFormValues fv (fetchStates_continue r)) = country fv"
  by (cases r) (simp_all add: fetchStates_continue_def reducer_fields)

lemma step_StatesResponse:
  "k < length (statesRequests c) \<Longrightarrow>
   step Number props c (StatesResponse k r) =
     Some (c\<lparr>formValues := setFormValues (formValues c) (fetchStates_continue r),
             statesRequests := remove_nth k (statesRequests c)\<rparr>, [])"
  by (simp add: step.simps render_same_country fetchStates_continue_country)

lemma step_StatesResponse_None:
  "\<not> k < length (statesRequests c) \<Longrightarrow> step Number props c (StatesResponse k r) = None"
  by (simp add: step.simps)

lemma step_field_change:
  "step Number props c (StateChange v) = Some (c\<lparr>formValues := (formValues c)\<lparr>state := v\<rparr>\<rparr>, [])"
  "step Number props c (CityChange v) = Some (c\<lparr>formValues := (formValues c)\<lparr>city := v\<rparr>\<rparr>, [])"
  "step Number props c (PostcodeChange v) =
     Some (c\<lparr>formValues := (formValues c)\<lparr>postcode := v\<rparr>\<rparr>, [])"
  by (simp_all add: step.simps render_same_country reducer_fields reducer_def)

subsection \<open>The result of fetching the states\<close>

text \<open>
  Claim C1. When a call of \<^verbatim>\<open>getShippingStates\<close> settles with a result that is not
  a success with data (the status is not \<^verbatim>\<open>'success'\<close>, or the data is absent), the
  component sets \<open>states\<close> to \<^verbatim>\<open>null\<close>, and the state field is then the text input.
  For all form values, \<open>states\<close> being \<^verbatim>\<open>null\<close> makes the state field the text input
  and not the select.
\<close>

theorem failed_states_fetch_sets_null:
  "(\<forall>k status data.
      k < length (statesRequests c) \<and> \<not> (status = ''success'' \<and> data \<noteq> None) \<longrightarrow>
      (\<exists>c' calls.
         step Number props c (StatesResponse k (StatesReturned status data)) = Some (c', calls) \<and>
         states (formValues c') = None \<and>
         isInput (renderStateField (formValues c')))) \<and>
   (\<forall>fv :: 'n FormValues. states fv = None \<longrightarrow> isInput (renderStateField fv))"
  by (auto simp: step_StatesResponse fetchStates_continue_def reducer_fields isInput_iff)

lemma exampleMounted_eq:
  "exampleMounted =
     \<lparr>formValues = \<lparr>country = ''CA-38'', states = Some [], state = ''Ontario'', city = [],
         postcode = ''M5V''\<rparr>,
      translator = 0, statesRequests = [38], submitRequests = []\<rparr>"
  by code_simp

lemma emptyMounted_eq:
  "emptyMounted =
     \<lparr>formValues = \<lparr>country = [], states = Some [], state = [], city = [], postcode = []\<rparr>,
      translator = 0, statesRequests = [], submitRequests = []\<rparr>"
  by code_simp

theorem failed_states_fetch_sets_null_witness:
  "0 < length (statesRequests exampleMounted) \<and>
   (\<exists>c' calls.
      step decimal exampleProps exampleMounted
        (StatesResponse 0 (StatesReturned ''error'' None) :: (nat, nat, unit) Event) =
        Some (c', calls) \<and>
      states (formValues c') = None \<and> isInput (renderStateField (formValues c')))"
proof -
  have h: "0 < length (statesRequests exampleMounted)"
    by (simp add: exampleMounted_eq)
  from failed_states_fetch_sets_null [of exampleMounted decimal exampleProps] h
  show ?thesis by blast
qed

text \<open>
  Claim C2, as the specification states it, fails: a fetch that succeeds with the empty list
  leaves the state field a select. The select is disabled and has no item; the state
  field is the text input only when \<open>states\<close> is \<^verbatim>\<open>null\<close>.
\<close>

theorem empty_states_list_counterexample:
  "step decimal exampleProps exampleMounted
     (StatesResponse 0 (StatesReturned ''success'' (Some [])) :: (nat, nat, unit) Event) =
     Some (exampleMounted\<lparr>statesRequests := []\<rparr>, []) \<and>
   renderStateField (formValues (exampleMounted\<lparr>statesRequests := []\<rparr>)) =
     StateSelect True ''Ontario'' [] \<and>
   \<not> isInput (renderStateField (formValues (exampleMounted\<lparr>statesRequests := []\<rparr>)))"
  by (simp add: exampleMounted_eq step_StatesResponse fetchStates_continue_def reducer_def
      remove_nth_def renderStateField_def)

text \<open>
  Claim C2, amended. When a call of \<^verbatim>\<open>getShippingStates\<close> settles with the status
  \<^verbatim>\<open>'success'\<close> and a list, \<open>states\<close> becomes that list and the state field is a
  select with one item for each entry of the list, disabled exactly when the list is
  empty: for the empty list it is a disabled select without items, not the text input.
\<close>

theorem successful_states_fetch_renders_select:
  "\<forall>k sts.
     k < length (statesRequests c) \<longrightarrow>
     (\<exists>c' calls.
        step Number props c (StatesResponse k (StatesReturned ''success'' (Some sts))) =
          Some (c', calls) \<and>
        states (formValues c') = Some sts \<and>
        renderStateField (formValues c') =
          StateSelect (sts = []) (state (formValues c)) (map entry_state sts) \<and>
        \<not> isInput (renderStateField (formValues c')))"
  by (simp add: step_StatesResponse fetchStates_continue_def reducer_fields
      renderStateField_def)

theorem successful_states_fetch_renders_select_witness:
  "0 < length (statesRequests exampleMounted) \<and>
   (\<exists>c' calls.
      step decimal exampleProps exampleMounted
        (StatesResponse 0 (StatesReturned ''success'' (Some exampleStates))
           :: (nat, nat, unit) Event) = Some (c', calls) \<and>
      states (formValues c') = Some exampleStates \<and>
      renderStateField (formValues c') =
        StateSelect (exampleStates = []) (state (formValues exampleMounted))
          (map entry_state exampleStates) \<and>
      \<not> isInput (renderStateField (formValues c')))"
proof -
  have h: "0 < length (statesRequests exampleMounted)"
    by (simp add: exampleMounted_eq)
  from successful_states_fetch_renders_select [of exampleMounted decimal exampleProps] h
  show ?thesis by blast
qed

subsection \<open>Submitting the form\<close>

lemma step_Submit:
  "step Number props c (Submit formData) =
     Some (c\<lparr>submitRequests := submitRequests c @ [translator c]\<rparr>,
           [SubmitShippingInfo formData (submitArgs props)])"
  by (simp add: step.simps)

lemma step_SubmitResponse:
  "k < length (submitRequests c) \<Longrightarrow>
   step Number props c (SubmitResponse k r) =
     Some (c\<lparr>submitRequests := remove_nth k (submitRequests c)\<rparr>,
           onSubmit_continue (submitRequests c ! k) r)"
  by (simp add: step.simps)

lemma toast_onSubmit_continue:
  "(\<exists>x \<in> set (onSubmit_continue t r :: ('n, 't, 'fd) Call list). isToast x) \<longleftrightarrow>
   r = SubmitReturned ''error''"
  by (cases r) (simp_all add: onSubmit_continue_def)

text \<open>
  Claim C3. A submission calls \<^verbatim>\<open>submitShippingInfo\<close> and shows no toast by itself.
  When the call settles, an error toast is shown if and only if it returned a result
  with the status \<^verbatim>\<open>'error'\<close>, and then exactly one, with the message
  \<^verbatim>\<open>t('errorMessage')\<close>; for the status \<^verbatim>\<open>'success'\<close> the component makes no call.
\<close>

theorem toast_iff_submit_error:
  "(\<exists>c' calls. step Number props c (Submit formData) = Some (c', calls) \<and>
      (\<forall>x \<in> set calls. \<not> isToast x)) \<and>
   (\<forall>k r. k < length (submitRequests c) \<longrightarrow>
      (\<exists>c' calls.
         step Number props c (SubmitResponse k r :: ('n, 't, 'fd) Event) = Some (c', calls) \<and>
         ((\<exists>x \<in> set calls. isToast x) \<longleftrightarrow> r = SubmitReturned ''error'') \<and>
         (r = SubmitReturned ''error'' \<longrightarrow>
            calls = [ToastError (submitRequests c ! k) ''errorMessage'']) \<and>
         (r = SubmitReturned ''success'' \<longrightarrow> calls = [])))"
  by (simp add: step_Submit step_SubmitResponse toast_onSubmit_continue)
     (simp add: onSubmit_continue_def)

theorem toast_iff_submit_error_witness:
  "0 < length (submitRequests (exampleMounted\<lparr>submitRequests := [0]\<rparr>)) \<and>
   (\<exists>c' calls.
      step decimal exampleProps (exampleMounted\<lparr>submitRequests := [0]\<rparr>)
        (SubmitResponse 0 (SubmitReturned ''error'') :: (nat, nat, unit) Event) =
        Some (c', calls) \<and>
      calls = [ToastError (0::nat) ''errorMessage''])"
proof -
  have h: "0 < length (submitRequests (exampleMounted\<lparr>submitRequests := [0]\<rparr>))"
    by simp
  from toast_iff_submit_error
    [of decimal exampleProps "exampleMounted\<lparr>submitRequests := [0]\<rparr>" "()"] h
  have "\<exists>c' calls.
      step decimal exampleProps (exampleMounted\<lparr>submitRequests := [0]\<rparr>)
        (SubmitResponse 0 (SubmitReturned ''error'') :: (nat, nat, unit) Event) =
        Some (c', calls) \<and>
      calls = [ToastError (submitRequests (exampleMounted\<lparr>submitRequests := [0]\<rparr>) ! 0)
                 ''errorMessage'']"
    by blast
  with h show ?thesis by simp
qed

lemma shippingConsignment_None_iff:
  "shippingConsignment ch = None \<longleftrightarrow>
   shippingConsignments ch = None \<or> shippingConsignments ch = Some []"
  by (auto simp: shippingConsignment_def split: option.splits list.splits)

text \<open>
  Claim C6. A submission makes exactly one call, of \<^verbatim>\<open>submitShippingInfo\<close>, with the
  form data and with: the entity id of the checkout as \<open>checkoutId\<close>; as \<open>lineItems\<close>
  one pair of entity id and quantity for each physical line item of the cart, in order,
  and the empty list without a cart; as \<open>shippingId\<close> the entity id of the consignment
  that \<open>shippingConsignment\<close> selects, and the empty string when the checkout has no
  consignment (no list, or the empty list).
\<close>

theorem submit_passes_checkout_arguments:
  "\<exists>c' args.
     step Number props c (Submit formData) = Some (c', [SubmitShippingInfo formData args]) \<and>
     checkoutId args = checkout_entityId (checkout props) \<and>
     (cart (checkout props) = None \<longrightarrow> lineItems args = []) \<and>
     (\<forall>ct. cart (checkout props) = Some ct \<longrightarrow>
        map (\<lambda>i. (lineItemEntityId i, quantity i)) (lineItems args) =
        map (\<lambda>item. (item_entityId item, item_quantity item))
          (physicalItems (cart_lineItems ct))) \<and>
     (\<forall>sc. shippingConsignment (checkout props) = Some sc \<longrightarrow>
        shippingId args = consignment_entityId sc) \<and>
     (shippingConsignments (checkout props) = None \<or>
      shippingConsignments (checkout props) = Some [] \<longrightarrow> shippingId args = [])"
  by (auto simp: step_Submit submitArgs_def shippingConsignment_def comp_def
      split: option.splits)

theorem submit_passes_checkout_arguments_witness:
  "cart (checkout exampleProps) = Some exampleCart \<and>
   shippingConsignment (checkout exampleProps) = Some (exampleConsignments ! 1) \<and>
   (\<exists>c' args.
      step decimal exampleProps exampleMounted (Submit ()) =
        Some (c', [SubmitShippingInfo () args]) \<and>
      checkoutId args = ''chk'' \<and>
      map (\<lambda>i. (lineItemEntityId i, quantity i)) (lineItems args) = [(''i1'', 2), (''i2'', 1)] \<and>
      shippingId args = ''c2'')"
proof -
  have h1: "cart (checkout exampleProps) = Some exampleCart"
    by (simp add: exampleProps_def)
  have h2: "shippingConsignment (checkout exampleProps) = Some (exampleConsignments ! 1)"
    by (simp add: exampleProps_def shippingConsignment_def exampleConsignments_def)
  have v: "checkout_entityId (checkout exampleProps) = ''chk''"
     "map (\<lambda>item. (item_entityId item, item_quantity item))
        (physicalItems (cart_lineItems exampleCart)) = [(''i1'', 2), (''i2'', 1)]"
     "consignment_entityId (exampleConsignments ! 1) = ''c2''"
    by (simp_all add: exampleProps_def exampleCart_def exampleConsignments_def)
  from submit_passes_checkout_arguments [of decimal exampleProps exampleMounted "()"]
  obtain c' args where
    "step decimal exampleProps exampleMounted (Submit ()) =
       Some (c', [SubmitShippingInfo () args])"
    "checkoutId args = checkout_entityId (checkout exampleProps)"
    "\<forall>ct. cart (checkout exampleProps) = Some ct \<longrightarrow>
        map (\<lambda>i. (lineItemEntityId i, quantity i)) (lineItems args) =
        map (\<lambda>item. (item_entityId item, item_quantity item))
          (physicalItems (cart_lineItems ct))"
    "\<forall>sc. shippingConsignment (checkout exampleProps) = Some sc \<longrightarrow>
        shippingId args = consignment_entityId sc"
    by blast
  with h1 h2 v show ?thesis by auto
qed

subsection \<open>Updates of the form values\<close>

text \<open>
  Claim C9. The reducer merges the update into the current form values: a field that the
  update does not name keeps its value, and a field that it names takes the update's
  value. So editing the city changes the city and no other field.
\<close>

theorem setFormValues_merges_partial:
  "(new_country p = None \<longrightarrow> country (reducer cur p) = country cur) \<and>
   (new_states p = None \<longrightarrow> states (reducer cur p) = states cur) \<and>
   (new_state p = None \<longrightarrow> state (reducer cur p) = state cur) \<and>
   (new_city p = None \<longrightarrow> city (reducer cur p) = city cur) \<and>
   (new_postcode p = None \<longrightarrow> postcode (reducer cur p) = postcode cur) \<and>
   (\<forall>v. new_country p = Some v \<longrightarrow> country (reducer cur p) = v) \<and>
   (\<forall>v. new_states p = Some v \<longrightarrow> states (reducer cur p) = v) \<and>
   (\<forall>v. new_state p = Some v \<longrightarrow> state (reducer cur p) = v) \<and>
   (\<forall>v. new_city p = Some v \<longrightarrow> city (reducer cur p) = v) \<and>
   (\<forall>v. new_postcode p = Some v \<longrightarrow> postcode (reducer cur p) = v) \<and>
   (\<exists>c' calls. step Number props c (CityChange w) = Some (c', calls) \<and>
      city (formValues c') = w \<and>
      country (formValues c') = country (formValues c) \<and>
      states (formValues c') = states (formValues c) \<and>
      state (formValues c') = state (formValues c) \<and>
      postcode (formValues c') = postcode (formValues c))"
  by (simp add: reducer_fields step_field_change)

theorem setFormValues_merges_partial_witness:
  "new_country (noValues\<lparr>new_city := Some ''Austin''\<rparr> :: nat PartialFormValues) = None \<and>
   new_city (noValues\<lparr>new_city := Some ''Austin''\<rparr> :: nat PartialFormValues) = Some ''Austin'' \<and>
   country (reducer (formValues exampleMounted) (noValues\<lparr>new_city := Some ''Austin''\<rparr>)) =
     ''CA-38'' \<and>
   city (reducer (formValues exampleMounted) (noValues\<lparr>new_city := Some ''Austin''\<rparr>)) =
     ''Austin''"
proof -
  have h: "new_country (noValues\<lparr>new_city := Some ''Austin''\<rparr> :: nat PartialFormValues) = None"
    "new_city (noValues\<lparr>new_city := Some ''Austin''\<rparr> :: nat PartialFormValues) = Some ''Austin''"
    by simp_all
  have e: "country (formValues exampleMounted) = ''CA-38''"
    by (simp add: exampleMounted_eq)
  from setFormValues_merges_partial
    [of "noValues\<lparr>new_city := Some ''Austin''\<rparr>" "formValues exampleMounted"] h e
  show ?thesis by metis
qed

subsection \<open>Changing the country\<close>

lemma countryId_Nil [simp]: "countryId [] = None"
  by (simp add: countryId_def js_index_def)

lemma useEffect_body_eq:
  "useEffect_body Number fv =
     (if truthy (countryId (country fv)) then [Number (the (countryId (country fv)))] else [])"
  by (auto simp: useEffect_body_def truthy_def split: option.splits)

lemma resetFormFields_empty:
  "country fv = [] \<Longrightarrow> resetFormFieldsOnCountryChange fv = ([], [])"
  by (simp add: resetFormFieldsOnCountryChange_def)

lemma resetFormFields_nonempty:
  "country fv \<noteq> [] \<Longrightarrow>
   resetFormFieldsOnCountryChange fv =
     ([noValues\<lparr>new_states := Some (Some []), new_state := Some [],
         new_city := Some [], new_postcode := Some []\<rparr>], [HideShippingOptions])"
  by (simp add: resetFormFieldsOnCountryChange_def)

lemma reducer_country_only:
  "reducer fv (noValues\<lparr>new_country := Some v\<rparr>) = fv\<lparr>country := v\<rparr>"
  by (rule FormValues.equality) (simp_all add: reducer_def)

lemma truthy_Nil [simp]: "\<not> truthy None" "\<not> truthy (Some [])"
  by (simp_all add: truthy_def)

lemma step_CountryChange_empty:
  assumes "country (formValues c) = []"
  shows "step Number props c (CountryChange v) =
     (let v' = (if truthy (countryId v) then v else []);
          fv = (formValues c)\<lparr>country := v'\<rparr>;
          fetches = (if v' \<noteq> [] then useEffect_body Number fv else [])
      in Some (c\<lparr>formValues := fv, statesRequests := statesRequests c @ fetches\<rparr>,
               map GetShippingStates fetches))"
  using assms
  by (auto simp: step.simps onCountryChange_def resetFormFields_empty render_def Let_def
      reducer_country_only)

lemma step_CountryChange_nonempty:
  assumes "country (formValues c) \<noteq> []"
  shows "step Number props c (CountryChange v) =
     (let v' = (if truthy (countryId v) then v else []);
          fv = \<lparr>country = v', states = Some [], state = [], city = [], postcode = []\<rparr>;
          fetches = (if v' \<noteq> country (formValues c) then useEffect_body Number fv else [])
      in Some (c\<lparr>formValues := fv, statesRequests := statesRequests c @ fetches\<rparr>,
               HideShippingOptions # map GetShippingStates fetches))"
  using assms
  by (simp add: step.simps onCountryChange_def resetFormFields_nonempty render_def Let_def
      reducer_def)

lemma count_Hide_fetches:
  "count_list (map GetShippingStates xs) HideShippingOptions = 0"
  by (induction xs) simp_all

text \<open>
  Claim C8. When the country select reports a value while the current country value is
  not empty, \<open>states\<close> becomes the empty list, \<open>state\<close>, \<open>city\<close> and \<open>postcode\<close>
  become the empty string, and \<^verbatim>\<open>hideShippingOptions\<close> is called once. While the
  current country value is empty, only the country field changes and
  \<^verbatim>\<open>hideShippingOptions\<close> is not called. In both cases the country becomes the value
  when the value has an id part, and the empty string otherwise.
\<close>

theorem country_change_resets_fields:
  "\<exists>c' calls.
     step Number props c (CountryChange v) = Some (c', calls) \<and>
     country (formValues c') = (if truthy (countryId v) then v else []) \<and>
     (country (formValues c) \<noteq> [] \<longrightarrow>
        states (formValues c') = Some [] \<and> state (formValues c') = [] \<and>
        city (formValues c') = [] \<and> postcode (formValues c') = [] \<and>
        count_list calls HideShippingOptions = 1) \<and>
     (country (formValues c) = [] \<longrightarrow>
        formValues c' = (formValues c)\<lparr>country := country (formValues c')\<rparr> \<and>
        HideShippingOptions \<notin> set calls)"
proof (cases "country (formValues c) = []")
  case True
  then show ?thesis
    by (auto simp: step_CountryChange_empty Let_def)
next
  case False
  then show ?thesis
    by (simp add: step_CountryChange_nonempty Let_def count_Hide_fetches)
qed

theorem country_change_resets_fields_witness:
  "country (formValues exampleMounted) \<noteq> [] \<and> country (formValues emptyMounted) = [] \<and>
   (\<exists>c' calls.
      step decimal exampleProps exampleMounted (CountryChange ''US-226'' :: (nat, nat, unit) Event)
        = Some (c', calls) \<and>
      country (formValues c') = ''US-226'' \<and> states (formValues c') = Some [] \<and>
      state (formValues c') = [] \<and> city (formValues c') = [] \<and>
      postcode (formValues c') = [] \<and>
      count_list calls HideShippingOptions = 1) \<and>
   (\<exists>c' calls.
      step decimal emptyProps emptyMounted (CountryChange ''US-226'' :: (nat, nat, unit) Event)
        = Some (c', calls) \<and>
      formValues c' = (formValues emptyMounted)\<lparr>country := ''US-226''\<rparr> \<and>
      HideShippingOptions \<notin> set calls)"
proof -
  have h: "country (formValues exampleMounted) \<noteq> []" "country (formValues emptyMounted) = []"
    by (simp_all add: exampleMounted_eq emptyMounted_eq)
  have t: "truthy (countryId ''US-226'')"
    by (simp add: countryId_def js_index_def truthy_def)
  from country_change_resets_fields [of decimal exampleProps exampleMounted "''US-226''"]
  obtain c1 and calls1 :: "(nat, nat, unit) Call list" where
    "step decimal exampleProps exampleMounted (CountryChange ''US-226'') = Some (c1, calls1)"
    "country (formValues c1) = (if truthy (countryId ''US-226'') then ''US-226'' else [])"
    "country (formValues exampleMounted) \<noteq> [] \<longrightarrow>
       states (formValues c1) = Some [] \<and> state (formValues c1) = [] \<and>
       city (formValues c1) = [] \<and> postcode (formValues c1) = [] \<and>
       count_list calls1 HideShippingOptions = 1"
    by blast
  with h(1) t have a: "\<exists>c' calls.
      step decimal exampleProps exampleMounted (CountryChange ''US-226'' :: (nat, nat, unit) Event)
        = Some (c', calls) \<and>
      country (formValues c') = ''US-226'' \<and> states (formValues c') = Some [] \<and>
      state (formValues c') = [] \<and> city (formValues c') = [] \<and>
      postcode (formValues c') = [] \<and>
      count_list calls HideShippingOptions = 1"
    by simp
  from country_change_resets_fields [of decimal emptyProps emptyMounted "''US-226''"]
  obtain c2 and calls2 :: "(nat, nat, unit) Call list" where
    "step decimal emptyProps emptyMounted (CountryChange ''US-226'') = Some (c2, calls2)"
    "country (formValues c2) = (if truthy (countryId ''US-226'') then ''US-226'' else [])"
    "country (formValues emptyMounted) = [] \<longrightarrow>
       formValues c2 = (formValues emptyMounted)\<lparr>country := country (formValues c2)\<rparr> \<and>
       HideShippingOptions \<notin> set calls2"
    by blast
  with h(2) t have b: "\<exists>c' calls.
      step decimal emptyProps emptyMounted (CountryChange ''US-226'' :: (nat, nat, unit) Event)
        = Some (c', calls) \<and>
      formValues c' = (formValues emptyMounted)\<lparr>country := ''US-226''\<rparr> \<and>
      HideShippingOptions \<notin> set calls"
    by simp
  from h a b show ?thesis by blast
qed

subsection \<open>The first render\<close>

lemma find_first:
  "\<forall>y \<in> set pre. \<not> P y \<Longrightarrow> P x \<Longrightarrow> find P (pre @ x # post) = Some x"
  by (induction pre) simp_all

lemma find_none: "\<forall>y \<in> set xs. \<not> P y \<Longrightarrow> find P xs = None"
  by (induction xs) simp_all

lemma shippingConsignment_first_selected:
  assumes "shippingConsignments ch = Some (pre @ sc # post)"
    and "\<forall>x \<in> set pre. selectedShippingOption x = None"
    and "selectedShippingOption sc \<noteq> None"
  shows "shippingConsignment ch = Some sc"
  using assms by (simp add: shippingConsignment_def find_first)

lemma shippingConsignment_first:
  assumes "shippingConsignments ch = Some (sc # rest)"
    and "\<forall>x \<in> set (sc # rest). selectedShippingOption x = None"
  shows "shippingConsignment ch = Some sc"
proof -
  from assms(2) have "find (\<lambda>x. selectedShippingOption x \<noteq> None) (sc # rest) = None"
    by (intro find_none) simp
  with assms(1) show ?thesis
    by (simp add: shippingConsignment_def)
qed

lemma selectedShippingCountry_match:
  assumes "shippingConsignment (checkout props) = Some sc"
    and "shippingCountries props = pre @ e # post"
    and "\<forall>x \<in> set pre. countryCode x \<noteq> address_countryCode (address sc)"
    and "countryCode e = address_countryCode (address sc)"
  shows "selectedShippingCountry props = Some e"
  using assms by (simp add: selectedShippingCountry_def find_first)

lemma selectedShippingCountry_no_match:
  assumes "shippingConsignment (checkout props) = Some sc"
    and "\<forall>x \<in> set (shippingCountries props). countryCode x \<noteq> address_countryCode (address sc)"
  shows "selectedShippingCountry props = None"
  using assms by (simp add: selectedShippingCountry_def find_none)

lemma selectedShippingCountry_no_consignment:
  "shippingConsignment (checkout props) = None \<Longrightarrow> selectedShippingCountry props = None"
  by (simp add: selectedShippingCountry_def find_none)

lemma mount_formValues:
  "\<exists>calls. mount Number toString props tr =
     (\<lparr>formValues = initialFormValues toString props, translator = tr,
       statesRequests = useEffect_body Number (initialFormValues toString props),
       submitRequests = []\<rparr>, calls) \<and>
     calls = map GetShippingStates (useEffect_body Number (initialFormValues toString props))"
  by (simp add: mount_def Let_def)

text \<open>
  Claim C10. The consignment that fills the form is the first consignment of the checkout
  with a selected shipping option, and the first consignment when none has one (none
  when the checkout has no consignment). After the first render the country value is the
  country code, a hyphen and the id of the first shipping country whose code is the code
  of that consignment's address, and the empty string when no shipping country has that
  code or there is no consignment; \<open>state\<close>, \<open>city\<close> and \<open>postcode\<close> are the fields of
  that consignment's address, the empty string for an absent field or without a
  consignment; \<open>states\<close> is the empty list.
\<close>

theorem initial_values_from_consignment:
  fixes Number :: "string \<Rightarrow> 'n" and props :: "('n, 'o) Props" and tr :: 't
  shows
  "(\<forall>pre sc post.
      shippingConsignments (checkout props) = Some (pre @ sc # post) \<and>
      (\<forall>x \<in> set pre. selectedShippingOption x = None) \<and> selectedShippingOption sc \<noteq> None \<longrightarrow>
      shippingConsignment (checkout props) = Some sc) \<and>
   (\<forall>sc rest.
      shippingConsignments (checkout props) = Some (sc # rest) \<and>
      (\<forall>x \<in> set (sc # rest). selectedShippingOption x = None) \<longrightarrow>
      shippingConsignment (checkout props) = Some sc) \<and>
   (shippingConsignments (checkout props) = None \<or>
    shippingConsignments (checkout props) = Some [] \<longrightarrow>
      shippingConsignment (checkout props) = None) \<and>
   (\<exists>c calls.
      mount Number toString props tr = (c, calls :: ('n, 't, 'fd) Call list) \<and>
      states (formValues c) = Some [] \<and>
      (\<forall>sc pre e post.
         shippingConsignment (checkout props) = Some sc \<and>
         shippingCountries props = pre @ e # post \<and>
         (\<forall>x \<in> set pre. countryCode x \<noteq> address_countryCode (address sc)) \<and>
         countryCode e = address_countryCode (address sc) \<longrightarrow>
         country (formValues c) = countryCode e @ ''-'' @ toString (sc_id e)) \<and>
      (\<forall>sc.
         shippingConsignment (checkout props) = Some sc \<and>
         (\<forall>x \<in> set (shippingCountries props).
            countryCode x \<noteq> address_countryCode (address sc)) \<longrightarrow>
         country (formValues c) = []) \<and>
      (\<forall>sc.
         shippingConsignment (checkout props) = Some sc \<longrightarrow>
         state (formValues c) = orEmpty (stateOrProvince (address sc)) \<and>
         city (formValues c) = orEmpty (address_city (address sc)) \<and>
         postcode (formValues c) = orEmpty (postalCode (address sc))) \<and>
      (shippingConsignment (checkout props) = None \<longrightarrow>
         country (formValues c) = [] \<and> state (formValues c) = [] \<and>
         city (formValues c) = [] \<and> postcode (formValues c) = []))"
proof (intro conjI)
  show "\<forall>pre sc post.
      shippingConsignments (checkout props) = Some (pre @ sc # post) \<and>
      (\<forall>x \<in> set pre. selectedShippingOption x = None) \<and> selectedShippingOption sc \<noteq> None \<longrightarrow>
      shippingConsignment (checkout props) = Some sc"
    using shippingConsignment_first_selected by blast
  show "\<forall>sc rest.
      shippingConsignments (checkout props) = Some (sc # rest) \<and>
      (\<forall>x \<in> set (sc # rest). selectedShippingOption x = None) \<longrightarrow>
      shippingConsignment (checkout props) = Some sc"
    using shippingConsignment_first by blast
  show "shippingConsignments (checkout props) = None \<or>
    shippingConsignments (checkout props) = Some [] \<longrightarrow>
      shippingConsignment (checkout props) = None"
    by (simp add: shippingConsignment_None_iff)
  let ?fv = "initialFormValues toString props"
  have 1: "states ?fv = Some []"
    by (simp add: initialFormValues_def)
  have 2: "country ?fv = countryCode e @ ''-'' @ toString (sc_id e)"
    if "shippingConsignment (checkout props) = Some sc"
      "shippingCountries props = pre @ e # post"
      "\<forall>x \<in> set pre. countryCode x \<noteq> address_countryCode (address sc)"
      "countryCode e = address_countryCode (address sc)" for sc pre e post
    using selectedShippingCountry_match [OF that]
    by (simp add: initialFormValues_def countryValue_def)
  have 3: "country ?fv = []"
    if "shippingConsignment (checkout props) = Some sc"
      "\<forall>x \<in> set (shippingCountries props). countryCode x \<noteq> address_countryCode (address sc)"
    for sc
    using selectedShippingCountry_no_match [OF that]
    by (simp add: initialFormValues_def)
  have 4: "state ?fv = orEmpty (stateOrProvince (address sc)) \<and>
      city ?fv = orEmpty (address_city (address sc)) \<and>
      postcode ?fv = orEmpty (postalCode (address sc))"
    if "shippingConsignment (checkout props) = Some sc" for sc
    using that by (simp add: initialFormValues_def)
  have 5: "country ?fv = [] \<and> state ?fv = [] \<and> city ?fv = [] \<and> postcode ?fv = []"
    if "shippingConsignment (checkout props) = None"
    using that selectedShippingCountry_no_consignment [OF that]
    by (simp add: initialFormValues_def orEmpty_def)
  define c0 where "c0 = \<lparr>formValues = ?fv, translator = tr,
         statesRequests = useEffect_body Number ?fv, submitRequests = []\<rparr>"
  have fv: "formValues c0 = ?fv"
    by (simp add: c0_def)
  from mount_formValues [of Number toString props tr]
  obtain calls :: "('n, 't, 'fd) Call list" where
    m: "mount Number toString props tr = (c0, calls)"
    unfolding c0_def by blast
  show "\<exists>c calls.
      mount Number toString props tr = (c, calls :: ('n, 't, 'fd) Call list) \<and>
      states (formValues c) = Some [] \<and>
      (\<forall>sc pre e post.
         shippingConsignment (checkout props) = Some sc \<and>
         shippingCountries props = pre @ e # post \<and>
         (\<forall>x \<in> set pre. countryCode x \<noteq> address_countryCode (address sc)) \<and>
         countryCode e = address_countryCode (address sc) \<longrightarrow>
         country (formValues c) = countryCode e @ ''-'' @ toString (sc_id e)) \<and>
      (\<forall>sc.
         shippingConsignment (checkout props) = Some sc \<and>
         (\<forall>x \<in> set (shippingCountries props).
            countryCode x \<noteq> address_countryCode (address sc)) \<longrightarrow>
         country (formValues c) = []) \<and>
      (\<forall>sc.
         shippingConsignment (checkout props) = Some sc \<longrightarrow>
         state (formValues c) = orEmpty (stateOrProvince (address sc)) \<and>
         city (formValues c) = orEmpty (address_city (address sc)) \<and>
         postcode (formValues c) = orEmpty (postalCode (address sc))) \<and>
      (shippingConsignment (checkout props) = None \<longrightarrow>
         country (formValues c) = [] \<and> state (formValues c) = [] \<and>
         city (formValues c) = [] \<and> postcode (formValues c) = [])"
    apply (rule exI [of _ c0], rule exI [of _ calls])
    unfolding fv using m 1 2 3 4 5 by blast
qed

theorem initial_values_from_consignment_witness:
  "shippingConsignments (checkout exampleProps) =
     Some ([exampleConsignments ! 0] @ (exampleConsignments ! 1) # []) \<and>
   selectedShippingOption (exampleConsignments ! 0) = None \<and>
   selectedShippingOption (exampleConsignments ! 1) \<noteq> None \<and>
   shippingConsignment (checkout exampleProps) = Some (exampleConsignments ! 1) \<and>
   shippingCountries exampleProps = [exampleCountries ! 0] @ (exampleCountries ! 1) # [] \<and>
   countryCode (exampleCountries ! 0) \<noteq> ''CA'' \<and> countryCode (exampleCountries ! 1) = ''CA'' \<and>
   address_countryCode (address (exampleConsignments ! 1)) = ''CA'' \<and>
   (\<exists>c calls.
      mount decimal showNat exampleProps (0::nat) = (c, calls :: (nat, nat, unit) Call list) \<and>
      country (formValues c) = ''CA-38'' \<and> states (formValues c) = Some [] \<and>
      state (formValues c) = ''Ontario'' \<and> city (formValues c) = [] \<and>
      postcode (formValues c) = ''M5V'')"
proof -
  let ?c1 = "exampleConsignments ! 0" and ?c2 = "exampleConsignments ! 1"
  let ?us = "exampleCountries ! 0" and ?ca = "exampleCountries ! 1"
  note T = initial_values_from_consignment
    [where props = exampleProps and Number = decimal and toString = showNat and tr = "0::nat"
       and 'fd = unit]
  have h1: "shippingConsignments (checkout exampleProps) = Some ([?c1] @ ?c2 # [])"
    by (simp add: exampleProps_def exampleConsignments_def)
  have h2: "\<forall>x \<in> set [?c1]. selectedShippingOption x = None"
    and h3: "selectedShippingOption ?c2 \<noteq> None"
    by (simp_all add: exampleConsignments_def)
  from T [THEN conjunct1, rule_format, of "[?c1]" ?c2 "[]"] h1 h2 h3
  have sc: "shippingConsignment (checkout exampleProps) = Some ?c2"
    by simp
  have k1: "shippingCountries exampleProps = [?us] @ ?ca # []"
    by (simp add: exampleProps_def exampleCountries_def)
  have k2: "\<forall>x \<in> set [?us]. countryCode x \<noteq> address_countryCode (address ?c2)"
    and k3: "countryCode ?ca = address_countryCode (address ?c2)"
    by (simp_all add: exampleCountries_def exampleConsignments_def)
  from T [THEN conjunct2, THEN conjunct2, THEN conjunct2]
  obtain c and calls :: "(nat, nat, unit) Call list" where
    big: "mount decimal showNat exampleProps (0::nat) = (c, calls) \<and>
      states (formValues c) = Some [] \<and>
      (\<forall>sc pre e post.
         shippingConsignment (checkout exampleProps) = Some sc \<and>
         shippingCountries exampleProps = pre @ e # post \<and>
         (\<forall>x \<in> set pre. countryCode x \<noteq> address_countryCode (address sc)) \<and>
         countryCode e = address_countryCode (address sc) \<longrightarrow>
         country (formValues c) = countryCode e @ ''-'' @ showNat (sc_id e)) \<and>
      (\<forall>sc.
         shippingConsignment (checkout exampleProps) = Some sc \<and>
         (\<forall>x \<in> set (shippingCountries exampleProps).
            countryCode x \<noteq> address_countryCode (address sc)) \<longrightarrow>
         country (formValues c) = []) \<and>
      (\<forall>sc.
         shippingConsignment (checkout exampleProps) = Some sc \<longrightarrow>
         state (formValues c) = orEmpty (stateOrProvince (address sc)) \<and>
         city (formValues c) = orEmpty (address_city (address sc)) \<and>
         postcode (formValues c) = orEmpty (postalCode (address sc))) \<and>
      (shippingConsignment (checkout exampleProps) = None \<longrightarrow>
         country (formValues c) = [] \<and> state (formValues c) = [] \<and>
         city (formValues c) = [] \<and> postcode (formValues c) = [])"
    by (elim exE) (erule meta_mp [rotated])
  note m = big [THEN conjunct1]
  note s = big [THEN conjunct2, THEN conjunct1]
  note a = big [THEN conjunct2, THEN conjunct2, THEN conjunct1, rule_format]
  note b = big [THEN conjunct2, THEN conjunct2, THEN conjunct2, THEN conjunct2, THEN conjunct1,
    rule_format]
  from a [of ?c2 "[?us]" ?ca "[]"] sc k1 k2 k3
  have "country (formValues c) = countryCode ?ca @ ''-'' @ showNat (sc_id ?ca)"
    by simp
  moreover have "showNat 38 = ''38''"
    by code_simp
  ultimately have c: "country (formValues c) = ''CA-38''"
    by (simp add: exampleCountries_def)
  from b [of ?c2] sc have f: "state (formValues c) = ''Ontario''" "city (formValues c) = []"
    "postcode (formValues c) = ''M5V''"
    by (simp_all add: exampleConsignments_def orEmpty_def)
  have v: "countryCode ?us \<noteq> ''CA''" "countryCode ?ca = ''CA''"
    "address_countryCode (address ?c2) = ''CA''"
    by (simp_all add: exampleCountries_def exampleConsignments_def)
  from h1 h2 h3 sc k1 v m s c f show ?thesis
    by simp
qed

subsection \<open>The fetch of the states\<close>

lemma js_split_no_separator: "sep \<notin> set s \<Longrightarrow> js_split sep s = [s]"
  by (induction s) auto

lemma js_split_first_piece:
  "sep \<notin> set a \<Longrightarrow> js_split sep (a @ sep # b) = a # js_split sep b"
  by (induction a) auto

lemma countryId_code_id:
  assumes "CHR ''-'' \<notin> set code" and "CHR ''-'' \<notin> set ident"
  shows "countryId (code @ CHR ''-'' # ident) = Some ident"
  using assms
  by (simp add: countryId_def js_index_def js_split_first_piece js_split_no_separator)

lemma step_Rerender:
  "step Number props c (Rerender t') =
     (let fetches = (if t' \<noteq> translator c then useEffect_body Number (formValues c) else [])
      in Some (c\<lparr>translator := t', statesRequests := statesRequests c @ fetches\<rparr>,
               map GetShippingStates fetches))"
  by (simp add: step.simps render_def Let_def)

lemma filter_isFetch_map [simp]:
  "filter isFetch (map GetShippingStates xs) = map GetShippingStates xs"
  by (induction xs) simp_all

lemma filter_isFetch_onSubmit_continue [simp]:
  "filter isFetch (onSubmit_continue t r) = []"
  by (cases r) (simp_all add: onSubmit_continue_def)

text \<open>
  The calls of \<^verbatim>\<open>getShippingStates\<close> that a step makes are those of the effect on the
  new form values, or none; they are the requests that the step adds.
\<close>

lemma step_fetches:
  assumes "step Number props c e = Some (c', calls)"
  shows "filter isFetch calls = [] \<or>
         filter isFetch calls = map GetShippingStates (useEffect_body Number (formValues c'))"
proof (cases e)
  case (CountryChange v)
  with assms show ?thesis
    by (cases "country (formValues c) = []")
       (auto simp: step_CountryChange_empty step_CountryChange_nonempty Let_def
          split: if_splits)
next
  case (StatesResponse k r)
  with assms show ?thesis
    by (cases "k < length (statesRequests c)")
       (auto simp: step_StatesResponse step_StatesResponse_None)
next
  case (SubmitResponse k r)
  with assms show ?thesis
    by (cases "k < length (submitRequests c)") (auto simp: step_SubmitResponse step.simps)
next
  case (Rerender t')
  with assms show ?thesis
    by (auto simp: step_Rerender Let_def split: if_splits)
qed (use assms in \<open>auto simp: step_field_change step_Submit\<close>)

text \<open>
  Claim C4. Let the country select report a value made of a code, one hyphen and a
  non-empty id (neither holds a hyphen; a numeric id is such an id), other than the
  current country value. Then the component makes exactly one call of
  \<^verbatim>\<open>getShippingStates\<close>, with the number that \<^verbatim>\<open>Number\<close> reads from the id, and
  that call is the one request added to the unsettled ones. And when, after a step or
  after the first render, the country value is empty or has no id part, the step or the
  first render makes no call of \<^verbatim>\<open>getShippingStates\<close>.
\<close>

theorem country_change_fetches_states_once:
  fixes Number :: "string \<Rightarrow> 'n" and props :: "('n, 'o) Props" and c :: "('n, 't) Component"
  shows
  "(\<forall>code ident.
      CHR ''-'' \<notin> set code \<and> CHR ''-'' \<notin> set ident \<and> ident \<noteq> [] \<and>
      country (formValues c) \<noteq> code @ ''-'' @ ident \<longrightarrow>
      (\<exists>c' calls.
         step Number props c (CountryChange (code @ ''-'' @ ident)) =
           Some (c', calls :: ('n, 't, 'fd) Call list) \<and>
         country (formValues c') = code @ ''-'' @ ident \<and>
         filter isFetch calls = [GetShippingStates (Number ident)] \<and>
         statesRequests c' = statesRequests c @ [Number ident])) \<and>
   (\<forall>e c' calls.
      step Number props c e = Some (c', calls :: ('n, 't, 'fd) Call list) \<and>
      (country (formValues c') = [] \<or> \<not> truthy (countryId (country (formValues c')))) \<longrightarrow>
      filter isFetch calls = []) \<and>
   (\<forall>toString tr c' calls.
      mount Number toString props tr = (c' :: ('n, 't) Component, calls :: ('n, 't, 'fd) Call list) \<and>
      (country (formValues c') = [] \<or> \<not> truthy (countryId (country (formValues c')))) \<longrightarrow>
      calls = [])"
proof (intro conjI allI impI)
  fix code ident
  assume h: "CHR ''-'' \<notin> set code \<and> CHR ''-'' \<notin> set ident \<and> ident \<noteq> [] \<and>
      country (formValues c) \<noteq> code @ ''-'' @ ident"
  let ?v = "code @ ''-'' @ ident"
  from h have id: "countryId ?v = Some ident"
    by (simp add: countryId_code_id)
  with h have t: "truthy (countryId ?v)"
    by (simp add: truthy_def)
  have v: "?v \<noteq> []"
    by simp
  show "\<exists>c' calls.
         step Number props c (CountryChange ?v) = Some (c', calls :: ('n, 't, 'fd) Call list) \<and>
         country (formValues c') = ?v \<and>
         filter isFetch calls = [GetShippingStates (Number ident)] \<and>
         statesRequests c' = statesRequests c @ [Number ident]"
  proof (cases "country (formValues c) = []")
    case True
    with t id v show ?thesis
      by (simp add: step_CountryChange_empty Let_def useEffect_body_eq)
  next
    case False
    from h have "?v \<noteq> country (formValues c)"
      by (simp add: eq_commute)
    with False t id show ?thesis
      by (simp add: step_CountryChange_nonempty Let_def useEffect_body_eq)
  qed
next
  fix e c' and calls :: "('n, 't, 'fd) Call list"
  assume h: "step Number props c e = Some (c', calls) \<and>
      (country (formValues c') = [] \<or> \<not> truthy (countryId (country (formValues c'))))"
  then have "useEffect_body Number (formValues c') = []"
    by (auto simp: useEffect_body_eq)
  with step_fetches [of Number props c e c' calls] h show "filter isFetch calls = []"
    by auto
next
  fix toString tr and c' :: "('n, 't) Component" and calls :: "('n, 't, 'fd) Call list"
  assume h: "mount Number toString props tr = (c', calls) \<and>
      (country (formValues c') = [] \<or> \<not> truthy (countryId (country (formValues c'))))"
  then have "useEffect_body Number (formValues c') = []"
    by (auto simp: useEffect_body_eq)
  with h show "calls = []"
    by (auto simp: mount_def Let_def)
qed

theorem country_change_fetches_states_once_witness:
  "CHR ''-'' \<notin> set ''US'' \<and> CHR ''-'' \<notin> set ''226'' \<and> ''226'' \<noteq> [] \<and>
   country (formValues emptyMounted) \<noteq> ''US-226'' \<and>
   (\<exists>c' calls.
      step decimal emptyProps emptyMounted (CountryChange ''US-226'') =
        Some (c', calls :: (nat, nat, unit) Call list) \<and>
      country (formValues c') = ''US-226'' \<and>
      filter isFetch calls = [GetShippingStates 226] \<and>
      statesRequests c' = [226]) \<and>
   (\<exists>c' calls.
      step decimal exampleProps exampleMounted (CountryChange ''US'') =
        Some (c', calls :: (nat, nat, unit) Call list) \<and>
      country (formValues c') = [] \<and> filter isFetch calls = [])"
proof -
  have h: "CHR ''-'' \<notin> set ''US''" "CHR ''-'' \<notin> set ''226''" "''226'' \<noteq> []"
    "country (formValues emptyMounted) \<noteq> ''US-226''"
    by (simp_all add: emptyMounted_eq)
  have d: "decimal ''226'' = 226"
    by (simp add: decimal_def digitValue_def)
  from country_change_fetches_states_once
    [where Number = decimal and props = emptyProps and c = emptyMounted and 'fd = unit,
     THEN conjunct1, rule_format, of "''US''" "''226''"] h d
  have a: "\<exists>c' calls.
      step decimal emptyProps emptyMounted (CountryChange ''US-226'') =
        Some (c', calls :: (nat, nat, unit) Call list) \<and>
      country (formValues c') = ''US-226'' \<and>
      filter isFetch calls = [GetShippingStates 226] \<and>
      statesRequests c' = [226]"
    by (simp add: emptyMounted_eq)
  define c2 :: "(nat, nat) Component" where
    "c2 = exampleMounted\<lparr>formValues :=
            \<lparr>country = [], states = Some [], state = [], city = [], postcode = []\<rparr>\<rparr>"
  have n: "\<not> truthy (countryId ''US'')"
    by (simp add: countryId_def js_index_def)
  have st: "step decimal exampleProps exampleMounted (CountryChange ''US'') =
      Some (c2, [HideShippingOptions :: (nat, nat, unit) Call])"
    by (simp add: step_CountryChange_nonempty n Let_def useEffect_body_eq c2_def
        exampleMounted_eq)
  have e: "country (formValues c2) = []"
    by (simp add: c2_def)
  from country_change_fetches_states_once
    [where Number = decimal and props = exampleProps and c = exampleMounted and 'fd = unit,
     THEN conjunct2, THEN conjunct1, rule_format,
     of "CountryChange ''US''" c2 "[HideShippingOptions]"] st e
  have "filter isFetch [HideShippingOptions :: (nat, nat, unit) Call] = []"
    by simp
  with st e have b: "\<exists>c' calls.
      step decimal exampleProps exampleMounted (CountryChange ''US'') =
        Some (c', calls :: (nat, nat, unit) Call list) \<and>
      country (formValues c') = [] \<and> filter isFetch calls = []"
    by blast
  from h a b show ?thesis
    by blast
qed

subsection \<open>The states while a lookup is unsettled\<close>

lemma setFormValues_continue_states:
  "states (setFormValues fv (fetchStates_continue r)) =
     (case r of
        StatesReturned status data \<Rightarrow> (if status = ''success'' \<and> data \<noteq> None then data else None)
      | StatesRejected \<Rightarrow> states fv)"
  by (cases r) (simp_all add: fetchStates_continue_def reducer_fields)

text \<open>Only a settled lookup and a change of the country write \<open>states\<close>.\<close>

lemma step_states:
  assumes "step Number props c e = Some (c', calls)" and "\<not> isStatesResponse e"
  shows "states (formValues c') = states (formValues c) \<or> states (formValues c') = Some []"
proof (cases e)
  case (CountryChange v)
  with assms(1) show ?thesis
    by (cases "country (formValues c) = []")
       (auto simp: step_CountryChange_empty step_CountryChange_nonempty Let_def)
next
  case (SubmitResponse k r)
  with assms(1) show ?thesis
    by (cases "k < length (submitRequests c)") (auto simp: step_SubmitResponse step.simps)
next
  case (Rerender t')
  with assms(1) show ?thesis
    by (auto simp: step_Rerender Let_def)
next
  case (StatesResponse k r)
  with assms(2) show ?thesis
    by simp
qed (use assms(1) in \<open>auto simp: step_field_change step_Submit\<close>)

lemma run_keeps_empty_states:
  assumes "run Number props c evs = Some (c', calls)"
    and "\<forall>e \<in> set evs. \<not> isStatesResponse e"
    and "states (formValues c) = Some []"
  shows "states (formValues c') = Some []"
  using assms
proof (induction evs arbitrary: c calls)
  case Nil
  then show ?case by simp
next
  case (Cons e evs)
  from Cons.prems(1) obtain c1 calls1 calls2 where
    s: "step Number props c e = Some (c1, calls1)"
    and r: "run Number props c1 evs = Some (c', calls2)"
    by (auto split: option.splits prod.splits)
  from Cons.prems(2) have "\<not> isStatesResponse e"
    by simp
  with s Cons.prems(3) have "states (formValues c1) = Some []"
    using step_states [of Number props c e c1 calls1] by auto
  with Cons.IH [OF r] Cons.prems(2) show ?case
    by simp
qed

lemma step_states_null:
  assumes "step Number props c e = Some (c', calls)"
    and "states (formValues c) \<noteq> None" and "states (formValues c') = None"
  shows "\<exists>k status data. e = StatesResponse k (StatesReturned status data) \<and>
           k < length (statesRequests c) \<and> \<not> (status = ''success'' \<and> data \<noteq> None)"
proof (cases "isStatesResponse e")
  case False
  with assms show ?thesis
    using step_states [of Number props c e c' calls] by auto
next
  case True
  then obtain k r where e: "e = StatesResponse k r"
    by (cases e) simp_all
  with assms(1) have k: "k < length (statesRequests c)"
    by (auto simp: step.simps split: if_splits)
  with assms e show ?thesis
    by (cases r) (auto simp: step_StatesResponse setFormValues_continue_states split: if_splits)
qed

text \<open>
  Claim C5, as the specification states it, fails: lookups are not cancelled, so the
  lookup of an earlier country can settle while the lookup of the country selected after
  it is unsettled. Here the form starts without a country, the user selects one country
  and then another, and the first lookup succeeds: the second lookup is still unsettled
  and \<open>states\<close> is the first country's list, not the empty list.
\<close>

theorem states_while_loading_counterexample:
  "run decimal emptyProps emptyMounted
     [CountryChange ''US-226'', CountryChange ''CA-38'',
      StatesResponse 0 (StatesReturned ''success'' (Some exampleStates))] =
   Some (\<lparr>formValues = \<lparr>country = ''CA-38'', states = Some exampleStates, state = [],
                         city = [], postcode = []\<rparr>,
          translator = 0, statesRequests = [38], submitRequests = []\<rparr>,
         [GetShippingStates 226, HideShippingOptions, GetShippingStates 38
            :: (nat, nat, unit) Call]) \<and>
   exampleStates \<noteq> []"
  by code_simp

text \<open>
  Claim C5, amended. \<open>states\<close> is the empty list after the first render and after every
  change of the country made while the current country value is not empty, and it stays
  the empty list over every run of events in which no lookup settles. (A lookup is not
  cancelled by a later one, so \<open>states\<close> need not be empty while a later lookup is
  unsettled.) A step makes \<open>states\<close> \<^verbatim>\<open>null\<close> only when it settles an unsettled lookup
  with a result that is not a success with data.
\<close>

theorem states_empty_until_lookup_settles:
  fixes Number :: "string \<Rightarrow> 'n" and props :: "('n, 'o) Props" and c :: "('n, 't) Component"
  shows
  "(\<forall>toString tr c0 calls0.
      mount Number toString props tr = (c0 :: ('n, 't) Component, calls0 :: ('n, 't, 'fd) Call list)
      \<longrightarrow> states (formValues c0) = Some []) \<and>
   (\<forall>v c1 calls1.
      country (formValues c) \<noteq> [] \<and>
      step Number props c (CountryChange v) = Some (c1, calls1 :: ('n, 't, 'fd) Call list) \<longrightarrow>
      states (formValues c1) = Some []) \<and>
   (\<forall>evs c' calls.
      states (formValues c) = Some [] \<and> (\<forall>e \<in> set evs. \<not> isStatesResponse e) \<and>
      run Number props c evs = Some (c', calls :: ('n, 't, 'fd) Call list) \<longrightarrow>
      states (formValues c') = Some []) \<and>
   (\<forall>e c' calls.
      step Number props c e = Some (c', calls :: ('n, 't, 'fd) Call list) \<and>
      states (formValues c) \<noteq> None \<and> states (formValues c') = None \<longrightarrow>
      (\<exists>k status data.
         e = StatesResponse k (StatesReturned status data) \<and> k < length (statesRequests c) \<and>
         \<not> (status = ''success'' \<and> data \<noteq> None)))"
proof (intro conjI allI impI)
  fix toString tr and c0 :: "('n, 't) Component" and calls0 :: "('n, 't, 'fd) Call list"
  assume "mount Number toString props tr = (c0, calls0)"
  then show "states (formValues c0) = Some []"
    by (auto simp: mount_def Let_def initialFormValues_def)
next
  fix v c1 and calls1 :: "('n, 't, 'fd) Call list"
  assume "country (formValues c) \<noteq> [] \<and>
      step Number props c (CountryChange v) = Some (c1, calls1)"
  then show "states (formValues c1) = Some []"
    by (auto simp: step_CountryChange_nonempty Let_def)
next
  fix evs c' and calls :: "('n, 't, 'fd) Call list"
  assume "states (formValues c) = Some [] \<and> (\<forall>e \<in> set evs. \<not> isStatesResponse e) \<and>
      run Number props c evs = Some (c', calls)"
  then show "states (formValues c') = Some []"
    using run_keeps_empty_states [of Number props c evs c' calls] by blast
next
  fix e c' and calls :: "('n, 't, 'fd) Call list"
  assume "step Number props c e = Some (c', calls) \<and>
      states (formValues c) \<noteq> None \<and> states (formValues c') = None"
  then show "\<exists>k status data.
         e = StatesResponse k (StatesReturned status data) \<and> k < length (statesRequests c) \<and>
         \<not> (status = ''success'' \<and> data \<noteq> None)"
    using step_states_null [of Number props c e c' calls] by blast
qed

theorem states_empty_until_lookup_settles_witness:
  "mount decimal showNat exampleProps 0 =
     (exampleMounted, [GetShippingStates 38 :: (nat, nat, unit) Call]) \<and>
   country (formValues exampleMounted) \<noteq> [] \<and>
   (\<exists>c1 calls1.
      step decimal exampleProps exampleMounted (CountryChange ''US-226'') =
        Some (c1, calls1 :: (nat, nat, unit) Call list) \<and>
      states (formValues c1) = Some []) \<and>
   states (formValues exampleMounted) = Some [] \<and>
   statesRequests exampleMounted = [38] \<and>
   run decimal exampleProps exampleMounted [CityChange ''Toronto'', Submit ()] =
     Some (exampleMounted\<lparr>formValues := (formValues exampleMounted)\<lparr>city := ''Toronto''\<rparr>,
             submitRequests := [0]\<rparr>,
           [SubmitShippingInfo () (submitArgs exampleProps)]) \<and>
   states (formValues (exampleMounted\<lparr>formValues :=
     (formValues exampleMounted)\<lparr>city := ''Toronto''\<rparr>, submitRequests := [0]\<rparr>)) = Some [] \<and>
   step decimal exampleProps exampleMounted (StatesResponse 0 (StatesReturned ''error'' None)) =
     Some (exampleMounted\<lparr>formValues := (formValues exampleMounted)\<lparr>states := None\<rparr>,
             statesRequests := []\<rparr>, [] :: (nat, nat, unit) Call list) \<and>
   (\<exists>k status data.
      (StatesResponse 0 (StatesReturned ''error'' None) :: (nat, nat, unit) Event) =
        StatesResponse k (StatesReturned status data) \<and>
      k < length (statesRequests exampleMounted) \<and> \<not> (status = ''success'' \<and> data \<noteq> None))"
proof -
  let ?c' = "exampleMounted\<lparr>formValues := (formValues exampleMounted)\<lparr>city := ''Toronto''\<rparr>,
             submitRequests := [0]\<rparr>"
  let ?c'' = "exampleMounted\<lparr>formValues := (formValues exampleMounted)\<lparr>states := None\<rparr>,
             statesRequests := []\<rparr>"
  note T = states_empty_until_lookup_settles
    [where Number = decimal and props = exampleProps and c = exampleMounted and 'fd = unit]
  have m: "mount decimal showNat exampleProps 0 =
      (exampleMounted, [GetShippingStates 38 :: (nat, nat, unit) Call])"
    by code_simp
  from T [THEN conjunct1, rule_format, of showNat 0 exampleMounted "[GetShippingStates 38]"] m
  have h1: "states (formValues exampleMounted) = Some []"
    by blast
  have h2: "statesRequests exampleMounted = [38]"
    and h0: "country (formValues exampleMounted) \<noteq> []"
    by (simp_all add: exampleMounted_eq)
  obtain c1 and calls1 :: "(nat, nat, unit) Call list" where
    cc: "step decimal exampleProps exampleMounted (CountryChange ''US-226'') = Some (c1, calls1)"
    using h0 by (simp add: step_CountryChange_nonempty Let_def)
  from T [THEN conjunct2, THEN conjunct1, rule_format, of "''US-226''" c1 calls1] h0 cc
  have "states (formValues c1) = Some []"
    by blast
  with cc have z: "\<exists>c1 calls1.
      step decimal exampleProps exampleMounted (CountryChange ''US-226'') =
        Some (c1, calls1 :: (nat, nat, unit) Call list) \<and>
      states (formValues c1) = Some []"
    by blast
  have h3: "\<forall>e \<in> set [CityChange ''Toronto'', Submit () :: (nat, nat, unit) Event].
      \<not> isStatesResponse e"
    by simp
  have r: "run decimal exampleProps exampleMounted [CityChange ''Toronto'', Submit ()] =
     Some (?c', [SubmitShippingInfo () (submitArgs exampleProps)])"
    by (simp add: step_field_change step_Submit exampleMounted_eq)
  from T [THEN conjunct2, THEN conjunct2, THEN conjunct1, rule_format,
      of "[CityChange ''Toronto'', Submit ()]" ?c' "[SubmitShippingInfo () (submitArgs exampleProps)]"]
    h1 h3 r
  have a: "states (formValues ?c') = Some []"
    by blast
  have s: "step decimal exampleProps exampleMounted
      (StatesResponse 0 (StatesReturned ''error'' None)) =
      Some (?c'', [] :: (nat, nat, unit) Call list)"
    by (simp add: step_StatesResponse h2 fetchStates_continue_def remove_nth_def
        reducer_def exampleMounted_eq)
  have n: "states (formValues exampleMounted) \<noteq> None" "states (formValues ?c'') = None"
    by (simp_all add: h1)
  from T [THEN conjunct2, THEN conjunct2, THEN conjunct2, rule_format,
      of "StatesResponse 0 (StatesReturned ''error'' None)" ?c'' "[]"] s n
  have b: "\<exists>k status data.
      (StatesResponse 0 (StatesReturned ''error'' None) :: (nat, nat, unit) Event) =
        StatesResponse k (StatesReturned status data) \<and>
      k < length (statesRequests exampleMounted) \<and> \<not> (status = ''success'' \<and> data \<noteq> None)"
    by blast
  from m h0 z h1 h2 r a s b show ?thesis
    by blast
qed

subsection \<open>No retry\<close>

lemma no_call_in_onSubmit_continue:
  "GetShippingStates n \<notin> set (onSubmit_continue t r)"
  "SubmitShippingInfo fd a \<notin> set (onSubmit_continue t r)"
  by (cases r; simp add: onSubmit_continue_def)+

text \<open>A step calls \<^verbatim>\<open>getShippingStates\<close> only when a dependency of the effect changed.\<close>

lemma step_fetch_cause:
  assumes "step Number props c e = Some (c', calls)" and "GetShippingStates n \<in> set calls"
  shows "(\<exists>v. e = CountryChange v \<and> country (formValues c') \<noteq> country (formValues c)) \<or>
         (\<exists>t'. e = Rerender t' \<and> t' \<noteq> translator c)"
proof (cases e)
  case (CountryChange v)
  with assms show ?thesis
    by (cases "country (formValues c) = []")
       (auto simp: step_CountryChange_empty step_CountryChange_nonempty Let_def
          split: if_splits)
next
  case (StatesResponse k r)
  with assms show ?thesis
    by (cases "k < length (statesRequests c)")
       (auto simp: step_StatesResponse step_StatesResponse_None)
next
  case (SubmitResponse k r)
  with assms show ?thesis
    by (cases "k < length (submitRequests c)")
       (auto simp: step_SubmitResponse step.simps no_call_in_onSubmit_continue)
next
  case (Rerender t')
  with assms show ?thesis
    by (auto simp: step_Rerender Let_def split: if_splits)
qed (use assms in \<open>auto simp: step_field_change step_Submit\<close>)

lemma step_submit_cause:
  assumes "step Number props c e = Some (c', calls)" and "SubmitShippingInfo fd a \<in> set calls"
  shows "e = Submit fd"
proof (cases e)
  case (CountryChange v)
  with assms show ?thesis
    by (cases "country (formValues c) = []")
       (auto simp: step_CountryChange_empty step_CountryChange_nonempty Let_def
          split: if_splits)
next
  case (StatesResponse k r)
  with assms show ?thesis
    by (cases "k < length (statesRequests c)")
       (auto simp: step_StatesResponse step_StatesResponse_None)
next
  case (SubmitResponse k r)
  with assms show ?thesis
    by (cases "k < length (submitRequests c)")
       (auto simp: step_SubmitResponse step.simps no_call_in_onSubmit_continue)
next
  case (Rerender t')
  with assms show ?thesis
    by (auto simp: step_Rerender Let_def split: if_splits)
qed (use assms in \<open>auto simp: step_field_change step_Submit\<close>)

text \<open>
  Claim C7, as the specification states it, fails in its parenthesis: the effect that
  fetches the states depends on \<^verbatim>\<open>[formValues.country, t]\<close>, so a render with a new
  translation function \<^verbatim>\<open>t\<close> runs it again, with the country unchanged. Here the lookup
  of the first render fails, and a render with a new \<^verbatim>\<open>t\<close> then calls
  \<^verbatim>\<open>getShippingStates\<close> for the same country, without any change of the country.
\<close>

theorem fetch_without_country_change_counterexample:
  "run decimal exampleProps exampleMounted
     [StatesResponse 0 (StatesReturned ''error'' None), Rerender 1] =
   Some (\<lparr>formValues = \<lparr>country = ''CA-38'', states = None, state = ''Ontario'', city = [],
                         postcode = ''M5V''\<rparr>,
          translator = 1, statesRequests = [38], submitRequests = []\<rparr>,
         [GetShippingStates 38 :: (nat, nat, unit) Call]) \<and>
   country (formValues exampleMounted) = ''CA-38''"
  by code_simp

text \<open>
  Claim C7, amended. Handling a settled call starts no call of a server action: when a
  call of \<^verbatim>\<open>getShippingStates\<close> settles, with whatever outcome, the component makes no
  call at all, and when a call of \<^verbatim>\<open>submitShippingInfo\<close> settles it makes no call but,
  maybe, the toast; either leaves the other unsettled requests as they are and adds
  none. A step calls \<^verbatim>\<open>getShippingStates\<close> only when a dependency of the effect
  changes in it: in a change of the country select that changes the country value, or in
  a render with a new translation function. A step calls \<^verbatim>\<open>submitShippingInfo\<close> only
  when it is a submission of the form.
\<close>

theorem no_retry_after_failure:
  fixes Number :: "string \<Rightarrow> 'n" and props :: "('n, 'o) Props" and c :: "('n, 't) Component"
  shows
  "(\<forall>k r. k < length (statesRequests c) \<longrightarrow>
      (\<exists>c'. step Number props c (StatesResponse k r) = Some (c', [] :: ('n, 't, 'fd) Call list) \<and>
         statesRequests c' = remove_nth k (statesRequests c) \<and>
         submitRequests c' = submitRequests c)) \<and>
   (\<forall>k r. k < length (submitRequests c) \<longrightarrow>
      (\<exists>c' calls.
         step Number props c (SubmitResponse k r) = Some (c', calls :: ('n, 't, 'fd) Call list) \<and>
         (\<forall>x \<in> set calls. isToast x) \<and>
         statesRequests c' = statesRequests c \<and>
         submitRequests c' = remove_nth k (submitRequests c))) \<and>
   (\<forall>e c' calls n.
      step Number props c e = Some (c', calls :: ('n, 't, 'fd) Call list) \<and>
      GetShippingStates n \<in> set calls \<longrightarrow>
      (\<exists>v. e = CountryChange v \<and> country (formValues c') \<noteq> country (formValues c)) \<or>
      (\<exists>t'. e = Rerender t' \<and> t' \<noteq> translator c)) \<and>
   (\<forall>e c' calls fd a.
      step Number props c e = Some (c', calls :: ('n, 't, 'fd) Call list) \<and>
      SubmitShippingInfo fd a \<in> set calls \<longrightarrow> e = Submit fd)"
proof (intro conjI allI impI)
  fix k and r :: "'n StatesResult"
  assume "k < length (statesRequests c)"
  then show "\<exists>c'. step Number props c (StatesResponse k r) =
        Some (c', [] :: ('n, 't, 'fd) Call list) \<and>
      statesRequests c' = remove_nth k (statesRequests c) \<and>
      submitRequests c' = submitRequests c"
    by (simp add: step_StatesResponse)
next
  fix k r
  assume "k < length (submitRequests c)"
  then show "\<exists>c' calls.
      step Number props c (SubmitResponse k r) = Some (c', calls :: ('n, 't, 'fd) Call list) \<and>
      (\<forall>x \<in> set calls. isToast x) \<and>
      statesRequests c' = statesRequests c \<and>
      submitRequests c' = remove_nth k (submitRequests c)"
    by (cases r) (simp_all add: step_SubmitResponse onSubmit_continue_def)
next
  fix e c' n and calls :: "('n, 't, 'fd) Call list"
  assume "step Number props c e = Some (c', calls) \<and> GetShippingStates n \<in> set calls"
  then show "(\<exists>v. e = CountryChange v \<and> country (formValues c') \<noteq> country (formValues c)) \<or>
      (\<exists>t'. e = Rerender t' \<and> t' \<noteq> translator c)"
    using step_fetch_cause [of Number props c e c' calls n] by blast
next
  fix e c' fd a and calls :: "('n, 't, 'fd) Call list"
  assume "step Number props c e = Some (c', calls) \<and> SubmitShippingInfo fd a \<in> set calls"
  then show "e = Submit fd"
    using step_submit_cause [of Number props c e c' calls fd a] by blast
qed

theorem no_retry_after_failure_witness:
  "0 < length (statesRequests exampleMounted) \<and>
   (\<exists>c'. step decimal exampleProps exampleMounted
           (StatesResponse 0 (StatesReturned ''error'' None)) =
           Some (c', [] :: (nat, nat, unit) Call list) \<and>
         statesRequests c' = [] \<and> submitRequests c' = []) \<and>
   0 < length (submitRequests (exampleMounted\<lparr>submitRequests := [0]\<rparr>)) \<and>
   (\<exists>c' calls.
      step decimal exampleProps (exampleMounted\<lparr>submitRequests := [0]\<rparr>)
        (SubmitResponse 0 (SubmitReturned ''error'')) =
        Some (c', calls :: (nat, nat, unit) Call list) \<and>
      (\<forall>x \<in> set calls. isToast x) \<and> statesRequests c' = [38] \<and> submitRequests c' = []) \<and>
   (\<exists>c' calls.
      step decimal exampleProps exampleMounted (CountryChange ''US-226'') =
        Some (c', calls :: (nat, nat, unit) Call list) \<and>
      GetShippingStates 226 \<in> set calls \<and>
      country (formValues c') \<noteq> country (formValues exampleMounted)) \<and>
   (\<exists>c' calls a.
      step decimal exampleProps exampleMounted (Submit ()) =
        Some (c', calls :: (nat, nat, unit) Call list) \<and>
      SubmitShippingInfo () a \<in> set calls)"
proof -
  let ?cs = "exampleMounted\<lparr>submitRequests := [0]\<rparr>"
  note T = no_retry_after_failure
    [where Number = decimal and props = exampleProps and c = exampleMounted and 'fd = unit]
  note S = no_retry_after_failure
    [where Number = decimal and props = exampleProps and c = ?cs and 'fd = unit]
  have h1: "0 < length (statesRequests exampleMounted)"
    and h2: "0 < length (submitRequests ?cs)"
    by (simp_all add: exampleMounted_eq)
  from T [THEN conjunct1, rule_format, of 0 "StatesReturned ''error'' None"] h1
  have a: "\<exists>c'. step decimal exampleProps exampleMounted
           (StatesResponse 0 (StatesReturned ''error'' None)) =
           Some (c', [] :: (nat, nat, unit) Call list) \<and>
         statesRequests c' = [] \<and> submitRequests c' = []"
    by (simp add: exampleMounted_eq remove_nth_def)
  from S [THEN conjunct2, THEN conjunct1, rule_format, of 0 "SubmitReturned ''error''"] h2
  have b: "\<exists>c' calls.
      step decimal exampleProps ?cs (SubmitResponse 0 (SubmitReturned ''error'')) =
        Some (c', calls :: (nat, nat, unit) Call list) \<and>
      (\<forall>x \<in> set calls. isToast x) \<and> statesRequests c' = [38] \<and> submitRequests c' = []"
    by (simp add: exampleMounted_eq remove_nth_def)
  define c1 :: "(nat, nat) Component" where
    "c1 = \<lparr>formValues = \<lparr>country = ''US-226'', states = Some [], state = [], city = [],
                 postcode = []\<rparr>,
            translator = 0, statesRequests = [38, 226], submitRequests = []\<rparr>"
  have s1: "step decimal exampleProps exampleMounted (CountryChange ''US-226'') =
      Some (c1, [HideShippingOptions, GetShippingStates 226 :: (nat, nat, unit) Call])"
    unfolding c1_def by code_simp
  have g: "GetShippingStates 226 \<in>
      set [HideShippingOptions, GetShippingStates 226 :: (nat, nat, unit) Call]"
    by simp
  from T [THEN conjunct2, THEN conjunct2, THEN conjunct1, rule_format,
      of "CountryChange ''US-226''" c1 "[HideShippingOptions, GetShippingStates 226]" 226] s1 g
  have "country (formValues c1) \<noteq> country (formValues exampleMounted)"
    by auto
  with s1 g have c: "\<exists>c' calls.
      step decimal exampleProps exampleMounted (CountryChange ''US-226'') =
        Some (c', calls :: (nat, nat, unit) Call list) \<and>
      GetShippingStates 226 \<in> set calls \<and>
      country (formValues c') \<noteq> country (formValues exampleMounted)"
    by blast
  have d: "\<exists>c' calls a.
      step decimal exampleProps exampleMounted (Submit ()) =
        Some (c', calls :: (nat, nat, unit) Call list) \<and>
      SubmitShippingInfo () a \<in> set calls"
    by (simp add: step_Submit)
  from h1 a h2 b c d show ?thesis
    by blast
qed

end
